theory Spec2Isabelle
  imports Complex_Main
begin

section \<open>The page: elements, the document and what the script leaves behind\<close>

text \<open>
  \<^verbatim>\<open>script.js\<close> is one top-level sequence of statements run once when the page loads.
  It reads and mutates the DOM, registers callbacks with the platform (click listeners,
  an IntersectionObserver) and hands one configuration object to the charting library.
  The model passes the page state explicitly.

  An element is an object of the DOM; the document is the store of these objects, a list
  in document order, and a node is addressed by its position in that list (the script
  never inserts, removes or moves a node, so addresses are stable). Only the attributes
  the script reads or writes are fields: the local name (the tag in lower case, which a
  type selector compares), the \<^verbatim>\<open>id\<close> and \<^verbatim>\<open>href\<close> attributes (absent is \<open>None\<close>), the
  class list (a DOMTokenList: ordered, without duplicates), the three inline style
  properties the script assigns (the empty string is CSSOM's value of a property that is
  not set) and the parent node, which the descendant combinator of a selector follows.
  The records are extensible, so a statement about an element leaves its other
  attributes (the \<open>more\<close> part) as they are.
\<close>

record style =
  opacity :: string
  transform :: string
  transition :: string

record element =
  localName :: string
  elem_id :: "string option"
  href :: "string option"
  classList :: "string list"
  style :: style
  parentNode :: "nat option"

type_synonym dom = "element list"

text \<open>The errors the script can meet: a TypeError (a property of null, a call of what is
  no function), the SyntaxError of \<^verbatim>\<open>querySelector\<close> on a string that is no selector, the
  ReferenceError of a global that is not defined, and \<open>LibraryError\<close> for whatever the
  external chart constructor throws.\<close>

datatype error = TypeError | SyntaxError | ReferenceError | LibraryError

text \<open>
  JavaScript numbers are doubles. The integers of the script (chart samples, gradient
  coordinates, durations) are \<open>int\<close>; the three fractions it writes (\<^verbatim>\<open>0.1\<close>, \<^verbatim>\<open>0.4\<close>,
  and the ratios the platform reports) are \<open>rat\<close>. The script does no arithmetic on
  any of them.
\<close>

subsection \<open>The chart configuration\<close>

record color_stop =
  stop_offset :: int
  stop_color :: string

record gradient =
  x0 :: int
  y0 :: int
  x1 :: int
  y1 :: int
  colorStops :: "color_stop list"

record dataset =
  label :: string
  data :: "int list"
  borderColor :: string
  backgroundColor :: gradient
  borderWidth :: int
  fill :: bool
  tension :: rat
  pointRadius :: int

record chart_data =
  labels :: "string list"
  datasets :: "dataset list"

record chart_options =
  responsive :: bool
  legend_display :: bool
  tooltip_enabled :: bool
  scales_x_display :: bool
  scales_y_display :: bool
  animation_y_duration :: int
  animation_y_easing :: string

record chart_config =
  chart_type :: string
  chart_data :: chart_data
  chart_options :: chart_options

text \<open>A call \<^verbatim>\<open>new Chart(ctx, config)\<close>: the canvas whose 2d context \<^verbatim>\<open>ctx\<close> is, and the
  configuration.\<close>

record chart_call =
  chart_canvas :: nat
  chart_config :: chart_config

subsection \<open>The page state\<close>

record scroll_options =
  behavior :: string

record scroll_call =
  scroll_target :: nat
  scroll_options :: scroll_options

text \<open>
  What exists after the DOM itself: the nodes that carry the script's click listener (one
  entry per \<^verbatim>\<open>addEventListener\<close> call), the targets of the script's observer (one entry
  per \<^verbatim>\<open>observe\<close> call), the calls made to the charting library and to
  \<^verbatim>\<open>scrollIntoView\<close>, and the errors the platform has reported for callbacks that threw.
\<close>

record page =
  document :: dom
  clickListeners :: "nat list"
  observed :: "nat list"
  chartCalls :: "chart_call list"
  scrollCalls :: "scroll_call list"
  console :: "error list"

definition initial_page :: "dom \<Rightarrow> page" where
  "initial_page doc =
     \<lparr>document = doc, clickListeners = [], observed = [], chartCalls = [],
      scrollCalls = [], console = []\<rparr>"

section \<open>Selectors\<close>

text \<open>
  The two selectors the script spells out are literals, translated by hand:
  \<^verbatim>\<open>a[href^="#"]\<close> and \<^verbatim>\<open>.glass-card, .member-card, .outcomes-list li\<close>. A compound
  selector is a list of simple selectors that must all hold of one element; a complex
  selector is a list of compounds joined by descendant combinators (white space), the
  subject last; a selector list is a comma-separated list of complex selectors.
\<close>

datatype simple_selector =
    TypeSel string
  | ClassSel string
  | IdSel string
  | HrefPrefixSel string

type_synonym compound_selector = "simple_selector list"
type_synonym complex_selector = "compound_selector list"
type_synonym selector_list = "complex_selector list"

fun starts_with :: "string \<Rightarrow> string \<Rightarrow> bool" where
  "starts_with [] s = True"
| "starts_with (p # ps) [] = False"
| "starts_with (p # ps) (c # cs) = (p = c \<and> starts_with ps cs)"

fun matches_simple :: "simple_selector \<Rightarrow> 'a element_scheme \<Rightarrow> bool" where
  "matches_simple (TypeSel t) el = (localName el = t)"
| "matches_simple (ClassSel c) el = (c \<in> set (classList el))"
| "matches_simple (IdSel i) el = (elem_id el = Some i)"
| "matches_simple (HrefPrefixSel p) el =
     (case href el of None \<Rightarrow> False | Some h \<Rightarrow> starts_with p h)"

definition matches_compound :: "compound_selector \<Rightarrow> 'a element_scheme \<Rightarrow> bool" where
  "matches_compound c el = list_all (\<lambda>s. matches_simple s el) c"

text \<open>
  The ancestors of a node, nearest first, by following \<open>parentNode\<close>. A tree of \<open>n\<close>
  nodes has no chain of parents longer than \<open>n\<close>, which bounds the walk.
\<close>

fun ancestors_upto :: "nat \<Rightarrow> 'a element_scheme list \<Rightarrow> nat \<Rightarrow> nat list" where
  "ancestors_upto 0 doc i = []"
| "ancestors_upto (Suc n) doc i =
     (if i < length doc
      then (case parentNode (doc ! i) of
              None \<Rightarrow> []
            | Some p \<Rightarrow> p # ancestors_upto n doc p)
      else [])"

definition ancestors :: "'a element_scheme list \<Rightarrow> nat \<Rightarrow> nat list" where
  "ancestors doc i = ancestors_upto (length doc) doc i"

text \<open>\<open>matches_from doc cs i\<close>: node \<open>i\<close> matches the complex selector whose compounds,
  subject first (that is, right to left), are \<open>cs\<close>.\<close>

fun matches_from :: "'a element_scheme list \<Rightarrow> compound_selector list \<Rightarrow> nat \<Rightarrow> bool" where
  "matches_from doc [] i = True"
| "matches_from doc (c # cs) i =
     (i < length doc \<and> matches_compound c (doc ! i) \<and>
      (cs = [] \<or> list_ex (\<lambda>a. matches_from doc cs a) (ancestors doc i)))"

definition matches_complex :: "'a element_scheme list \<Rightarrow> complex_selector \<Rightarrow> nat \<Rightarrow> bool" where
  "matches_complex doc sel i = matches_from doc (rev sel) i"

definition matches :: "'a element_scheme list \<Rightarrow> selector_list \<Rightarrow> nat \<Rightarrow> bool" where
  "matches doc sels i = list_ex (\<lambda>sel. matches_complex doc sel i) sels"

text \<open>\<^verbatim>\<open>document.querySelectorAll(sel)\<close>: every matching element once, in document order.\<close>

definition querySelectorAll :: "'a element_scheme list \<Rightarrow> selector_list \<Rightarrow> nat list" where
  "querySelectorAll doc sels = filter (matches doc sels) [0..<length doc]"

text \<open>\<^verbatim>\<open>document.getElementById(i)\<close>: the first element in document order with that id,
  or null.\<close>

definition getElementById :: "'a element_scheme list \<Rightarrow> string \<Rightarrow> nat option" where
  "getElementById doc i = List.find (\<lambda>n. elem_id (doc ! n) = Some i) [0..<length doc]"

text \<open>
  \<^verbatim>\<open>document.querySelector(s)\<close> takes its selector as a string at run time. The CSS
  parser belongs to the platform, not to the repository: it is the parameter \<open>parse\<close>,
  and \<open>parse s = None\<close> is the string the platform rejects, for which
  \<^verbatim>\<open>querySelector\<close> throws a SyntaxError. Otherwise the result is the first match in
  document order, or null.
\<close>

type_synonym css_parser = "string \<Rightarrow> selector_list option"

definition querySelector ::
  "css_parser \<Rightarrow> 'a element_scheme list \<Rightarrow> string \<Rightarrow> error + nat option" where
  "querySelector parse doc s =
     (case parse s of
        None \<Rightarrow> Inl SyntaxError
      | Some sels \<Rightarrow> Inr (List.find (matches doc sels) [0..<length doc]))"

section \<open>Component 1: the chart initializer (lines 1--41)\<close>

text \<open>
  What lines 1--41 call and the repository does not contain is a parameter, \<open>chart_env\<close>:
  whether \<^verbatim>\<open>getContext('2d')\<close> of a canvas gives a context (it gives null when the canvas
  already has a context of another kind), and the global \<^verbatim>\<open>Chart\<close>: \<open>None\<close> when no
  library has defined it, otherwise the constructor, which maps its two arguments to the
  error it throws, if any.
\<close>

record chart_env =
  context2d :: "nat \<Rightarrow> bool"
  chart_constructor :: "(nat \<Rightarrow> chart_config \<Rightarrow> error option) option"

text \<open>
  \<^verbatim>\<open>const ctx = document.getElementById('heroChart').getContext('2d');\<close>
  When no element has the id, \<^verbatim>\<open>getElementById\<close> returns null and reading
  \<^verbatim>\<open>getContext\<close> of null throws a TypeError. An element with the id that is not a
  canvas has no \<^verbatim>\<open>getContext\<close> method, and calling it throws a TypeError as well. When
  \<^verbatim>\<open>getContext\<close> returns null, line 5 reads \<^verbatim>\<open>createLinearGradient\<close> of null, a
  TypeError again. On a context, lines 5--7 return: their arguments are constants in
  range. The context is identified with its canvas.
\<close>

definition heroChart_ctx :: "chart_env \<Rightarrow> dom \<Rightarrow> error + nat" where
  "heroChart_ctx env doc =
     (case getElementById doc ''heroChart'' of
        None \<Rightarrow> Inl TypeError
      | Some c \<Rightarrow>
          if localName (doc ! c) \<noteq> ''canvas'' then Inl TypeError
          else if \<not> context2d env c then Inl TypeError
          else Inr c)"

definition createLinearGradient :: "int \<Rightarrow> int \<Rightarrow> int \<Rightarrow> int \<Rightarrow> gradient" where
  "createLinearGradient a b c d = \<lparr>x0 = a, y0 = b, x1 = c, y1 = d, colorStops = []\<rparr>"

definition addColorStop :: "int \<Rightarrow> string \<Rightarrow> gradient \<Rightarrow> gradient" where
  "addColorStop off col g =
     g\<lparr>colorStops := colorStops g @ [\<lparr>stop_offset = off, stop_color = col\<rparr>]\<rparr>"

definition hero_gradient :: gradient where
  "hero_gradient =
     addColorStop 1 ''rgba(0, 255, 170, 0)''
       (addColorStop 0 ''rgba(0, 255, 170, 0.5)''
         (createLinearGradient 0 0 0 400))"

definition heroChart_config :: chart_config where
  "heroChart_config =
     \<lparr>chart_type = ''line'',
      chart_data =
        \<lparr>labels = [''Jan'', ''Feb'', ''Mar'', ''Apr'', ''May'', ''Jun'', ''Jul''],
         datasets =
           [\<lparr>label = ''Market Volatility Index'',
             data = [65, 59, 80, 81, 56, 95, 75],
             borderColor = ''#00ffaa'',
             backgroundColor = hero_gradient,
             borderWidth = 3,
             fill = True,
             tension = 0.4,
             pointRadius = 0\<rparr>]\<rparr>,
      chart_options =
        \<lparr>responsive = True,
         legend_display = False,
         tooltip_enabled = False,
         scales_x_display = False,
         scales_y_display = False,
         animation_y_duration = 2000,
         animation_y_easing = ''easeInOutQuart''\<rparr>\<rparr>"

text \<open>
  A top-level statement that throws ends the script: the result is the error and the
  page as it was at the throw. Line 9, \<^verbatim>\<open>new Chart(ctx, config)\<close>, throws a
  ReferenceError when \<^verbatim>\<open>Chart\<close> is not defined; otherwise the constructor is called,
  the model records the call and its arguments, and the constructor returns or throws.
\<close>

definition chart_initializer :: "chart_env \<Rightarrow> page \<Rightarrow> error option \<times> page" where
  "chart_initializer env p =
     (case heroChart_ctx env (document p) of
        Inl e \<Rightarrow> (Some e, p)
      | Inr ctx \<Rightarrow>
          (case chart_constructor env of
             None \<Rightarrow> (Some ReferenceError, p)
           | Some new_Chart \<Rightarrow>
               (new_Chart ctx heroChart_config,
                p\<lparr>chartCalls := chartCalls p @
                    [\<lparr>chart_canvas = ctx, chart_config = heroChart_config\<rparr>]\<rparr>)))"

section \<open>Component 2: the navigation smoother (lines 43--51)\<close>

definition anchor_selector :: selector_list where
  "anchor_selector = [[[TypeSel ''a'', HrefPrefixSel ''#'']]]"

record click_event =
  cancelable :: bool
  defaultPrevented :: bool

text \<open>\<^verbatim>\<open>e.preventDefault()\<close> sets the canceled flag of a cancelable event and does nothing
  to any other.\<close>

definition preventDefault :: "click_event \<Rightarrow> click_event" where
  "preventDefault e = e\<lparr>defaultPrevented := defaultPrevented e \<or> cancelable e\<rparr>"

text \<open>\<^verbatim>\<open>this.getAttribute('href')\<close> is the attribute or null, and a null passed where a
  string is expected is the string \<^verbatim>\<open>null\<close>.\<close>

definition getAttribute_href :: "dom \<Rightarrow> nat \<Rightarrow> string option" where
  "getAttribute_href doc this = (if this < length doc then href (doc ! this) else None)"

definition to_string :: "string option \<Rightarrow> string" where
  "to_string v = (case v of None \<Rightarrow> ''null'' | Some s \<Rightarrow> s)"

definition scrollIntoView :: "nat \<Rightarrow> scroll_options \<Rightarrow> page \<Rightarrow> page" where
  "scrollIntoView t opts p =
     p\<lparr>scrollCalls := scrollCalls p @ [\<lparr>scroll_target = t, scroll_options = opts\<rparr>]\<rparr>"

text \<open>
  The listener, with \<open>this\<close> the anchor it is registered on. It returns the error it
  throws, if any, with the event and the page as they are when it returns or throws:
  the call of \<^verbatim>\<open>preventDefault\<close> comes first and stays done. \<^verbatim>\<open>querySelector\<close> may throw
  (SyntaxError) or return null, and \<^verbatim>\<open>scrollIntoView\<close> of null is a TypeError.
\<close>

definition click_handler ::
  "css_parser \<Rightarrow> nat \<Rightarrow> click_event \<times> page \<Rightarrow> error option \<times> click_event \<times> page" where
  "click_handler parse this s =
     (case s of (e, p) \<Rightarrow>
        (let e' = preventDefault e in
         case querySelector parse (document p)
                (to_string (getAttribute_href (document p) this)) of
           Inl err \<Rightarrow> (Some err, e', p)
         | Inr None \<Rightarrow> (Some TypeError, e', p)
         | Inr (Some t) \<Rightarrow> (None, e', scrollIntoView t \<lparr>behavior = ''smooth''\<rparr> p)))"

text \<open>\<^verbatim>\<open>anchor.addEventListener('click', function (e) {...})\<close>: every call passes a new
  function object, so every call adds a listener.\<close>

definition addEventListener_click :: "nat \<Rightarrow> page \<Rightarrow> page" where
  "addEventListener_click anchor p = p\<lparr>clickListeners := clickListeners p @ [anchor]\<rparr>"

definition navigation_smoother :: "page \<Rightarrow> page" where
  "navigation_smoother p =
     fold addEventListener_click (querySelectorAll (document p) anchor_selector) p"

section \<open>Component 3: the reveal-on-scroll controller (lines 53--75)\<close>

record observer_options =
  threshold :: rat

definition observerOptions :: observer_options where
  "observerOptions = \<lparr>threshold = 0.1\<rparr>"

record entry =
  target :: nat
  isIntersecting :: bool
  intersectionRatio :: rat

text \<open>\<open>update_element i f doc\<close> mutates the object at address \<open>i\<close>.\<close>

definition update_element ::
  "nat \<Rightarrow> ('a element_scheme \<Rightarrow> 'a element_scheme) \<Rightarrow> 'a element_scheme list
    \<Rightarrow> 'a element_scheme list" where
  "update_element i f doc = (if i < length doc then doc[i := f (doc ! i)] else doc)"

text \<open>\<^verbatim>\<open>classList.add(t)\<close> appends the token unless the list has it.\<close>

definition classList_add :: "string \<Rightarrow> string list \<Rightarrow> string list" where
  "classList_add t cs = (if t \<in> set cs then cs else cs @ [t])"

text \<open>The body of the \<^verbatim>\<open>if\<close> of the callback. Assigning the number 1 to
  \<^verbatim>\<open>style.opacity\<close> stores its string.\<close>

definition reveal :: "'a element_scheme \<Rightarrow> 'a element_scheme" where
  "reveal el =
     el\<lparr>classList := classList_add ''visible'' (classList el),
        style := (style el)\<lparr>opacity := ''1'', transform := ''translateY(0)''\<rparr>\<rparr>"

definition on_entry :: "entry \<Rightarrow> 'a element_scheme list \<Rightarrow> 'a element_scheme list" where
  "on_entry e doc = (if isIntersecting e then update_element (target e) reveal doc else doc)"

definition observer_callback ::
  "entry list \<Rightarrow> 'a element_scheme list \<Rightarrow> 'a element_scheme list" where
  "observer_callback entries doc = fold on_entry entries doc"

definition animated_selector :: selector_list where
  "animated_selector =
     [[[ClassSel ''glass-card'']],
      [[ClassSel ''member-card'']],
      [[ClassSel ''outcomes-list''], [TypeSel ''li'']]]"

text \<open>The three assignments of the loop body (lines 71--73).\<close>

definition hide :: "'a element_scheme \<Rightarrow> 'a element_scheme" where
  "hide el =
     el\<lparr>style := (style el)\<lparr>opacity := ''0'', transform := ''translateY(20px)'',
          transition := ''opacity 0.6s ease-out, transform 0.6s ease-out''\<rparr>\<rparr>"

text \<open>\<^verbatim>\<open>observer.observe(el)\<close> adds a target; observing a target again changes nothing.\<close>

definition observe :: "nat \<Rightarrow> page \<Rightarrow> page" where
  "observe el p = (if el \<in> set (observed p) then p else p\<lparr>observed := observed p @ [el]\<rparr>)"

definition hide_and_observe :: "nat \<Rightarrow> page \<Rightarrow> page" where
  "hide_and_observe el p = observe el (p\<lparr>document := update_element el hide (document p)\<rparr>)"

definition reveal_controller :: "page \<Rightarrow> page" where
  "reveal_controller p =
     fold hide_and_observe (querySelectorAll (document p) animated_selector) p"

text \<open>The two states of an animated element, by the inline style that shows them:
  Hidden is what \<open>hide\<close> writes, Visible is what \<open>reveal\<close> writes.\<close>

definition is_hidden :: "'a element_scheme \<Rightarrow> bool" where
  "is_hidden el =
     (opacity (style el) = ''0'' \<and> transform (style el) = ''translateY(20px)'')"

definition is_visible :: "'a element_scheme \<Rightarrow> bool" where
  "is_visible el =
     (opacity (style el) = ''1'' \<and> transform (style el) = ''translateY(0)'')"

definition transition_armed :: "'a element_scheme \<Rightarrow> bool" where
  "transition_armed el =
     (transition (style el) = ''opacity 0.6s ease-out, transform 0.6s ease-out'')"

section \<open>The script\<close>

text \<open>The three components in the order of the file. An error of the first is uncaught
  at top level, and the rest of the script does not run.\<close>

definition script :: "chart_env \<Rightarrow> page \<Rightarrow> error option \<times> page" where
  "script env p =
     (case chart_initializer env p of
        (Some e, p') \<Rightarrow> (Some e, p')
      | (None, p') \<Rightarrow> (None, reveal_controller (navigation_smoother p')))"

definition load :: "chart_env \<Rightarrow> dom \<Rightarrow> error option \<times> page" where
  "load env doc = script env (initial_page doc)"

text \<open>
  Two abbreviations for the proofs. \<open>hide_all\<close> is the effect of the loop of lines
  70--75 on the document alone, and \<open>loaded doc c\<close> is the page that \<open>load\<close> is shown
  to leave when the chart initializer, on canvas \<open>c\<close>, does not throw (lemma
  \<open>load_cases\<close>).
\<close>

definition hide_all :: "nat list \<Rightarrow> 'a element_scheme list \<Rightarrow> 'a element_scheme list" where
  "hide_all xs doc = fold (\<lambda>i. update_element i hide) xs doc"

definition loaded :: "dom \<Rightarrow> nat \<Rightarrow> page" where
  "loaded doc c =
     \<lparr>document = hide_all (querySelectorAll doc animated_selector) doc,
      clickListeners = querySelectorAll doc anchor_selector,
      observed = querySelectorAll doc animated_selector,
      chartCalls = [\<lparr>chart_canvas = c, chart_config = heroChart_config\<rparr>],
      scrollCalls = [], console = []\<rparr>"

section \<open>The platform: how events reach the callbacks\<close>

text \<open>
  Modelled from the spec: the platform's intersection notification is missing from the
  sources. It computes \<^verbatim>\<open>isIntersecting\<close> of an entry; the callback only reads it.
  Section 4.3 and the glossary of the specification: the mechanism reports that an
  element's visible fraction has crossed above the configured threshold.
\<close>

definition intersection_entry :: "observer_options \<Rightarrow> nat \<Rightarrow> rat \<Rightarrow> entry" where
  "intersection_entry opts el ratio =
     \<lparr>target = el, isIntersecting = (threshold opts < ratio), intersectionRatio = ratio\<rparr>"

text \<open>
  Modelled from the spec: the platform's event dispatch is missing from the sources.
  Sections 5 and 7 of the specification: callbacks run one at a time on a single thread;
  a click handler that throws is reported by the platform (the console) and aborts only
  itself, the other listeners are not halted. A click of the user is a cancelable event.
  Entries are delivered for the observer's targets only.
\<close>

fun dispatch_click ::
  "css_parser \<Rightarrow> nat \<Rightarrow> nat list \<Rightarrow> click_event \<times> page \<Rightarrow> click_event \<times> page" where
  "dispatch_click parse a [] s = s"
| "dispatch_click parse a (l # ls) s =
     (if l = a
      then (case click_handler parse a s of
              (None, s') \<Rightarrow> dispatch_click parse a ls s'
            | (Some err, e', p') \<Rightarrow>
                dispatch_click parse a ls (e', p'\<lparr>console := console p' @ [err]\<rparr>))
      else dispatch_click parse a ls s)"

text \<open>The event of a click by the user, before any listener has run.\<close>

definition user_click :: click_event where
  "user_click = \<lparr>cancelable = True, defaultPrevented = False\<rparr>"

text \<open>
  Modelled from the spec: the platform's event loop is missing from the sources. An event
  is a click of the user on a node or a batch of intersection entries (sections 5 and 7
  and section 4.3 of the specification, as above); \<open>deliver\<close> runs the callbacks
  registered for it.
\<close>

datatype platform_event = Click nat | Intersection "entry list"

fun deliver :: "css_parser \<Rightarrow> page \<Rightarrow> platform_event \<Rightarrow> page" where
  "deliver parse p (Click a) =
     snd (dispatch_click parse a (clickListeners p) (user_click, p))"
| "deliver parse p (Intersection es) =
     p\<lparr>document :=
         observer_callback (filter (\<lambda>e. target e \<in> set (observed p)) es) (document p)\<rparr>"

text \<open>
  For the statements about clicks: \<open>lookup_target\<close> names the lookup the listener makes
  (line 47), \<open>lookup_error\<close> the error the listener throws when that lookup gives no
  element, and two pages are \<open>same_but_console\<close> when they differ at most in the errors
  reported so far.
\<close>

definition lookup_target :: "css_parser \<Rightarrow> dom \<Rightarrow> nat \<Rightarrow> error + nat option" where
  "lookup_target parse doc this = querySelector parse doc (to_string (getAttribute_href doc this))"

definition lookup_error :: "css_parser \<Rightarrow> dom \<Rightarrow> nat \<Rightarrow> error" where
  "lookup_error parse doc this =
     (case lookup_target parse doc this of Inl err \<Rightarrow> err | Inr _ \<Rightarrow> TypeError)"

definition same_but_console :: "page \<Rightarrow> page \<Rightarrow> bool" where
  "same_but_console p q = (p\<lparr>console := []\<rparr> = q\<lparr>console := []\<rparr>)"

text \<open>
  The claims speak of the fragment target of a link: for the href \<^verbatim>\<open>#name\<close> it is the
  element whose id is \<open>name\<close>, which is where the default navigation would jump.
  \<open>fragment_target\<close> follows these words, not the script, which looks its target up with
  \<^verbatim>\<open>querySelector\<close>. \<open>parses_as_id parse doc a\<close> says that the href of \<open>a\<close> is
  \<^verbatim>\<open>#name\<close> and that the platform reads this string as the ID selector of \<open>name\<close>, as it
  does when \<open>name\<close> is a CSS identifier.
\<close>

definition fragment_target :: "dom \<Rightarrow> nat \<Rightarrow> nat option" where
  "fragment_target doc a =
     (case getAttribute_href doc a of
        None \<Rightarrow> None
      | Some [] \<Rightarrow> None
      | Some (c # name) \<Rightarrow> if c = CHR ''#'' then getElementById doc name else None)"

definition parses_as_id :: "css_parser \<Rightarrow> dom \<Rightarrow> nat \<Rightarrow> bool" where
  "parses_as_id parse doc a =
     (case getAttribute_href doc a of
        None \<Rightarrow> False
      | Some [] \<Rightarrow> False
      | Some (c # name) \<Rightarrow> c = CHR ''#'' \<and> parse (c # name) = Some [[[IdSel name]]])"


section \<open>Concrete pages\<close>

text \<open>
  The chart library as a page with Chart.js has it, and as a page has it on which the
  library did not load.
\<close>

definition chart_js :: chart_env where
  "chart_js = \<lparr>context2d = (\<lambda>c. True), chart_constructor = Some (\<lambda>ctx cfg. None)\<rparr>"

definition no_chart_js :: chart_env where
  "no_chart_js = \<lparr>context2d = (\<lambda>c. True), chart_constructor = None\<rparr>"

text \<open>
  A parser for compound selectors: an optional type name followed by any number of
  \<^verbatim>\<open>#name\<close> and \<^verbatim>\<open>.name\<close>, each name a non-empty run of letters, digits, hyphens and
  underscores that starts with a letter or an underscore; every other string is
  rejected. It stands for the platform's parser on the pages below only, whose hrefs are
  \<^verbatim>\<open>#team\<close>, \<^verbatim>\<open>#pricing\<close> and \<^verbatim>\<open>#team.hero\<close>, which are selectors, and \<^verbatim>\<open>#\<close> and
  \<^verbatim>\<open>#1st\<close>, which are not (an identifier does not start with a digit). The general
  theorems hold for every parser. The scan runs from the end of the string: \<open>scan s\<close> is
  the name not yet closed by a \<^verbatim>\<open>#\<close> or a \<^verbatim>\<open>.\<close>, and the simple selectors found.
\<close>

definition ident_start :: "char \<Rightarrow> bool" where
  "ident_start c = (c \<in> set ''abcdefghijklmnopqrstuvwxyzABCDEFGHIJKLMNOPQRSTUVWXYZ_'')"

definition ident_char :: "char \<Rightarrow> bool" where
  "ident_char c = (ident_start c \<or> c \<in> set ''0123456789-'')"

definition is_ident :: "string \<Rightarrow> bool" where
  "is_ident name =
     (case name of [] \<Rightarrow> False | n # _ \<Rightarrow> ident_start n \<and> list_all ident_char name)"

fun scan :: "string \<Rightarrow> (string \<times> simple_selector list) option" where
  "scan [] = Some ([], [])"
| "scan (c # cs) =
     (case scan cs of
        None \<Rightarrow> None
      | Some (name, sels) \<Rightarrow>
          if c = CHR ''#'' then (if is_ident name then Some ([], IdSel name # sels) else None)
          else if c = CHR ''.'' then (if is_ident name then Some ([], ClassSel name # sels) else None)
          else if ident_char c then Some (c # name, sels)
          else None)"

definition page_parser :: css_parser where
  "page_parser s =
     (case scan s of
        None \<Rightarrow> None
      | Some (name, sels) \<Rightarrow>
          if name = [] then (if sels = [] then None else Some [[sels]])
          else if is_ident name then Some [[TypeSel name # sels]]
          else None)"

definition node ::
  "string \<Rightarrow> string option \<Rightarrow> string option \<Rightarrow> string list \<Rightarrow> nat option \<Rightarrow> element" where
  "node t i h cs par =
     \<lparr>localName = t, elem_id = i, href = h, classList = cs,
      style = \<lparr>opacity = [], transform = [], transition = []\<rparr>, parentNode = par\<rparr>"

text \<open>A landing page: the chart canvas, a link to a section that exists, one to a
  section that does not, one element of each animated kind, and a bare \<^verbatim>\<open>#\<close> link.\<close>

definition landing_page :: dom where
  "landing_page =
     [node ''body'' None None [] None,
      node ''canvas'' (Some ''heroChart'') None [] (Some 0),
      node ''a'' None (Some ''#team'') [] (Some 0),
      node ''a'' None (Some ''#pricing'') [] (Some 0),
      node ''div'' None None [''glass-card''] (Some 0),
      node ''section'' (Some ''team'') None [] (Some 0),
      node ''div'' None None [''member-card''] (Some 5),
      node ''ul'' None None [''outcomes-list''] (Some 0),
      node ''li'' None None [] (Some 7),
      node ''a'' None (Some ''#'') [] (Some 0)]"

text \<open>The same page without the canvas.\<close>

definition page_without_canvas :: dom where
  "page_without_canvas =
     [node ''body'' None None [] None,
      node ''a'' None (Some ''#team'') [] (Some 0),
      node ''div'' None None [''glass-card''] (Some 0),
      node ''section'' (Some ''team'') None [] (Some 0)]"

text \<open>The page of the scenario: one card and nothing else that is animated.\<close>

definition one_card_page :: dom where
  "one_card_page =
     [node ''canvas'' (Some ''heroChart'') None [] None,
      node ''div'' None None [''glass-card''] None]"

text \<open>A page whose link names a section by an id that starts with a digit: the section
  is there, the href is no selector.\<close>

definition digit_id_page :: dom where
  "digit_id_page =
     [node ''canvas'' (Some ''heroChart'') None [] None,
      node ''a'' None (Some ''#1st'') [] None,
      node ''section'' (Some ''1st'') None [] None]"

text \<open>A page whose link has a fragment that is no element's id and that, read as a
  selector, is the element with id \<^verbatim>\<open>team\<close> and class \<^verbatim>\<open>hero\<close>.\<close>

definition compound_href_page :: dom where
  "compound_href_page =
     [node ''canvas'' (Some ''heroChart'') None [] None,
      node ''a'' None (Some ''#team.hero'') [] None,
      node ''section'' (Some ''team'') None [''hero''] None]"

text \<open>A page without the canvas whose only link points to a section that is missing.\<close>

definition dead_link_without_canvas :: dom where
  "dead_link_without_canvas =
     [node ''body'' None None [] None,
      node ''a'' None (Some ''#pricing'') [] (Some 0)]"

section \<open>The reveal callback\<close>

lemma length_update_element [simp]: "length (update_element i f doc) = length doc"
  by (simp add: update_element_def)

lemma nth_update_element:
  "update_element i f doc ! j = (if j = i \<and> i < length doc then f (doc ! i) else doc ! j)"
  by (simp add: update_element_def)



lemma reveal_visible: "is_visible (reveal el)"
  by (simp add: reveal_def is_visible_def)



lemma length_on_entry [simp]: "length (on_entry e doc) = length doc"
  by (simp add: on_entry_def)

lemma length_observer_callback [simp]: "length (observer_callback es doc) = length doc"
  unfolding observer_callback_def by (induction es arbitrary: doc) simp_all

lemma on_entry_not_intersecting: "\<not> isIntersecting e \<Longrightarrow> on_entry e doc = doc"
  by (simp add: on_entry_def)

lemma on_entry_other: "target e \<noteq> i \<Longrightarrow> on_entry e doc ! i = doc ! i"
  by (simp add: on_entry_def nth_update_element)

lemma callback_Nil [simp]: "observer_callback [] doc = doc"
  by (simp add: observer_callback_def)

lemma callback_Cons [simp]:
  "observer_callback (e # es) doc = observer_callback es (on_entry e doc)"
  by (simp add: observer_callback_def)


lemma callback_none_intersecting:
  "\<forall>e \<in> set es. \<not> isIntersecting e \<Longrightarrow> observer_callback es doc = doc"
  by (induction es arbitrary: doc) (simp_all add: on_entry_not_intersecting)

lemma callback_frame_element:
  "\<forall>e \<in> set es. target e = i \<longrightarrow> \<not> isIntersecting e \<Longrightarrow> observer_callback es doc ! i = doc ! i"
proof (induction es arbitrary: doc)
  case Nil
  show ?case by simp
next
  case (Cons e es)
  have "on_entry e doc ! i = doc ! i"
  proof (cases "target e = i")
    case True
    with Cons.prems have "\<not> isIntersecting e" by simp
    then show ?thesis by (simp add: on_entry_not_intersecting)
  next
    case False
    then show ?thesis by (rule on_entry_other)
  qed
  moreover have "observer_callback es (on_entry e doc) ! i = on_entry e doc ! i"
    using Cons.prems by (intro Cons.IH) simp
  ultimately show ?case by simp
qed

text \<open>
  Claim C10. The callback does nothing for an entry that is not intersecting: handling
  such an entry leaves the whole document as it is (no class added, no style written);
  a call whose entries are all not intersecting changes nothing; and an element for
  which no entry of the call is intersecting is the same object after the call.
\<close>

theorem callback_skips_not_intersecting:
  "(\<not> isIntersecting e \<longrightarrow> on_entry e doc = doc) \<and>
   ((\<forall>x \<in> set entries. \<not> isIntersecting x) \<longrightarrow> observer_callback entries doc = doc) \<and>
   ((\<forall>x \<in> set entries. target x = i \<longrightarrow> \<not> isIntersecting x) \<longrightarrow>
      observer_callback entries doc ! i = doc ! i)"
  by (simp add: on_entry_not_intersecting callback_none_intersecting callback_frame_element)



lemma on_entry_visible:
  assumes "is_visible (doc ! i)"
  shows "is_visible (on_entry e doc ! i)"
  using assms by (simp add: on_entry_def nth_update_element reveal_visible)

lemma callback_visible:
  "is_visible (doc ! i) \<Longrightarrow> is_visible (observer_callback es doc ! i)"
  by (induction es arbitrary: doc) (simp_all add: on_entry_visible)

lemma batches_visible:
  "is_visible (doc ! i) \<Longrightarrow> is_visible (fold observer_callback batches doc ! i)"
  by (induction batches arbitrary: doc) (simp_all add: callback_visible)

lemma visible_not_hidden: "is_visible el \<Longrightarrow> \<not> is_hidden el"
  by (simp add: is_visible_def is_hidden_def)

text \<open>
  Claim C8. Visible is terminal: an element that is Visible (opacity 1, offset 0) stays
  Visible through every later sequence of callback invocations, whatever their entries
  report (intersecting or not, for this element or another), and so is never Hidden
  again.
\<close>

theorem visible_is_terminal:
  assumes "is_visible (doc ! i)"
  shows "is_visible (fold observer_callback batches doc ! i) \<and>
         \<not> is_hidden (fold observer_callback batches doc ! i)"
  using assms by (simp add: batches_visible visible_not_hidden)

section \<open>One-shot reveal\<close>

lemma entry_simps [simp]:
  "target (intersection_entry opts i r) = i"
  "isIntersecting (intersection_entry opts i r) = (threshold opts < r)"
  "intersectionRatio (intersection_entry opts i r) = r"
  by (simp_all add: intersection_entry_def)



lemma loaded_card: "document (snd (load chart_js one_card_page)) =
   [node ''canvas'' (Some ''heroChart'') None [] None,
    hide (node ''div'' None None [''glass-card''] None)]"
  by code_simp



theorem callback_skips_not_intersecting_witness:
  "\<not> isIntersecting (intersection_entry observerOptions 1 0.05) \<and>
   on_entry (intersection_entry observerOptions 1 0.05) (document (snd (load chart_js one_card_page)))
     = document (snd (load chart_js one_card_page)) \<and>
   observer_callback
       [intersection_entry observerOptions 1 0.05, intersection_entry observerOptions 0 0.5]
       (document (snd (load chart_js one_card_page))) ! 1
     = document (snd (load chart_js one_card_page)) ! 1 \<and>
   is_hidden (document (snd (load chart_js one_card_page)) ! 1)"
proof -
  let ?e = "intersection_entry observerOptions 1 0.05"
  let ?es = "[?e, intersection_entry observerOptions 0 0.5]"
  let ?doc = "document (snd (load chart_js one_card_page))"
  have out: "\<not> isIntersecting ?e"
    by (simp add: observerOptions_def)
  have none: "\<forall>x \<in> set ?es. target x = 1 \<longrightarrow> \<not> isIntersecting x"
    by (simp add: observerOptions_def)
  have h: "is_hidden (?doc ! 1)"
    by code_simp
  from callback_skips_not_intersecting [of ?e ?doc ?es 1] out none h
  show ?thesis by blast
qed

theorem visible_is_terminal_witness:
  "is_visible (observer_callback [intersection_entry observerOptions 1 0.5]
                 (document (snd (load chart_js one_card_page))) ! 1) \<and>
   is_visible (fold observer_callback
                 [[intersection_entry observerOptions 1 0],
                  [intersection_entry observerOptions 1 0.5, intersection_entry observerOptions 1 0]]
                 (observer_callback [intersection_entry observerOptions 1 0.5]
                    (document (snd (load chart_js one_card_page)))) ! 1) \<and>
   \<not> is_hidden (fold observer_callback
                 [[intersection_entry observerOptions 1 0],
                  [intersection_entry observerOptions 1 0.5, intersection_entry observerOptions 1 0]]
                 (observer_callback [intersection_entry observerOptions 1 0.5]
                    (document (snd (load chart_js one_card_page)))) ! 1)"
proof -
  have v: "is_visible (observer_callback [intersection_entry observerOptions 1 0.5]
                 (document (snd (load chart_js one_card_page))) ! 1)"
    by (simp add: loaded_card on_entry_def nth_update_element reveal_visible observerOptions_def)
  from visible_is_terminal [OF v] v show ?thesis
    by blast
qed

section \<open>What a page load does\<close>

lemma set_querySelectorAll:
  "set (querySelectorAll doc sels) = {i. i < length doc \<and> matches doc sels i}"
  by (auto simp: querySelectorAll_def)

lemma distinct_querySelectorAll: "distinct (querySelectorAll doc sels)"
  by (simp add: querySelectorAll_def)

lemma heroChart_ctx_absent:
  "getElementById doc ''heroChart'' = None \<Longrightarrow> heroChart_ctx env doc = Inl TypeError"
  by (simp add: heroChart_ctx_def)

lemma chart_initializer_throws:
  "fst (chart_initializer env p) = Some e \<Longrightarrow>
     document (snd (chart_initializer env p)) = document p \<and>
     clickListeners (snd (chart_initializer env p)) = clickListeners p \<and>
     observed (snd (chart_initializer env p)) = observed p \<and>
     scrollCalls (snd (chart_initializer env p)) = scrollCalls p \<and>
     console (snd (chart_initializer env p)) = console p \<and>
     (chartCalls (snd (chart_initializer env p)) = chartCalls p \<or>
      (\<exists>c. chartCalls (snd (chart_initializer env p)) =
             chartCalls p @ [\<lparr>chart_canvas = c, chart_config = heroChart_config\<rparr>]))"
  by (auto simp: chart_initializer_def split: sum.splits option.splits)

lemma chart_initializer_returns:
  "fst (chart_initializer env p) = None \<Longrightarrow>
     \<exists>c. heroChart_ctx env (document p) = Inr c \<and>
         snd (chart_initializer env p) =
           p\<lparr>chartCalls := chartCalls p @
                [\<lparr>chart_canvas = c, chart_config = heroChart_config\<rparr>]\<rparr>"
  by (auto simp: chart_initializer_def split: sum.splits option.splits)

lemma fold_addEventListener:
  "fold addEventListener_click xs p = p\<lparr>clickListeners := clickListeners p @ xs\<rparr>"
  by (induction xs arbitrary: p) (simp_all add: addEventListener_click_def)

lemma navigation_smoother_eq:
  "navigation_smoother p =
     p\<lparr>clickListeners := clickListeners p @ querySelectorAll (document p) anchor_selector\<rparr>"
  by (simp add: navigation_smoother_def fold_addEventListener)

lemma hide_idem: "hide (hide el) = hide el"
  by (simp add: hide_def)

lemma hide_hidden: "is_hidden (hide el) \<and> transition_armed (hide el)"
  by (simp add: hide_def is_hidden_def transition_armed_def)

lemma length_hide_all [simp]: "length (hide_all xs doc) = length doc"
  unfolding hide_all_def by (induction xs arbitrary: doc) simp_all

lemma nth_hide_all:
  "j < length doc \<Longrightarrow> hide_all xs doc ! j = (if j \<in> set xs then hide (doc ! j) else doc ! j)"
  unfolding hide_all_def
proof (induction xs arbitrary: doc)
  case Nil
  show ?case by simp
next
  case (Cons x xs)
  from Cons.prems have "j < length (update_element x hide doc)" by simp
  from Cons.IH [OF this] show ?case
    using Cons.prems by (auto simp: nth_update_element hide_idem)
qed

lemma fold_hide_and_observe_document:
  "document (fold hide_and_observe xs p) = hide_all xs (document p)"
  unfolding hide_all_def
  by (induction xs arbitrary: p) (simp_all add: hide_and_observe_def observe_def)

lemma fold_hide_and_observe_observed:
  "distinct xs \<Longrightarrow> set xs \<inter> set (observed p) = {} \<Longrightarrow>
     observed (fold hide_and_observe xs p) = observed p @ xs"
  by (induction xs arbitrary: p) (auto simp: hide_and_observe_def observe_def)

lemma fold_hide_and_observe_rest:
  "clickListeners (fold hide_and_observe xs p) = clickListeners p \<and>
   chartCalls (fold hide_and_observe xs p) = chartCalls p \<and>
   scrollCalls (fold hide_and_observe xs p) = scrollCalls p \<and>
   console (fold hide_and_observe xs p) = console p"
  by (induction xs arbitrary: p) (simp_all add: hide_and_observe_def observe_def)

lemma reveal_controller_eq:
  assumes "observed p = []"
  shows "reveal_controller p =
     p\<lparr>document := hide_all (querySelectorAll (document p) animated_selector) (document p),
       observed := querySelectorAll (document p) animated_selector\<rparr>"
proof -
  let ?xs = "querySelectorAll (document p) animated_selector"
  have "observed (fold hide_and_observe ?xs p) = ?xs"
    using fold_hide_and_observe_observed [of ?xs p] assms
    by (simp add: distinct_querySelectorAll)
  then show ?thesis
    unfolding reveal_controller_def
    using fold_hide_and_observe_document [of ?xs p] fold_hide_and_observe_rest [of ?xs p]
    by (intro page.equality) simp_all
qed

lemma document_initial_page [simp]: "document (initial_page doc) = doc"
  by (simp add: initial_page_def)

lemma load_absent:
  "getElementById doc ''heroChart'' = None \<Longrightarrow> load env doc = (Some TypeError, initial_page doc)"
  by (simp add: load_def script_def chart_initializer_def heroChart_ctx_absent)

lemma load_outcome: "fst (load env doc) = fst (chart_initializer env (initial_page doc))"
  by (simp add: load_def script_def split: prod.splits option.splits)

lemma load_returns:
  assumes "fst (chart_initializer env (initial_page doc)) = None"
  shows "\<exists>c. heroChart_ctx env doc = Inr c \<and> load env doc = (None, loaded doc c)"
proof -
  from chart_initializer_returns [OF assms] obtain c
    where c: "heroChart_ctx env doc = Inr c"
      and p: "snd (chart_initializer env (initial_page doc)) =
                (initial_page doc)\<lparr>chartCalls := chartCalls (initial_page doc) @
                    [\<lparr>chart_canvas = c, chart_config = heroChart_config\<rparr>]\<rparr>"
    by auto
  from assms p have "chart_initializer env (initial_page doc) =
      (None, (initial_page doc)\<lparr>chartCalls := chartCalls (initial_page doc) @
                    [\<lparr>chart_canvas = c, chart_config = heroChart_config\<rparr>]\<rparr>)"
    by (simp add: prod_eq_iff)
  then have "load env doc = (None, loaded doc c)"
    by (simp add: load_def script_def initial_page_def navigation_smoother_eq
        reveal_controller_eq loaded_def)
  with c show ?thesis by blast
qed

lemma load_throws:
  assumes "fst (chart_initializer env (initial_page doc)) = Some e"
  shows "fst (load env doc) = Some e \<and> document (snd (load env doc)) = doc \<and>
         clickListeners (snd (load env doc)) = [] \<and> observed (snd (load env doc)) = [] \<and>
         scrollCalls (snd (load env doc)) = [] \<and> console (snd (load env doc)) = [] \<and>
         (chartCalls (snd (load env doc)) = [] \<or>
          (\<exists>c. chartCalls (snd (load env doc)) =
                 [\<lparr>chart_canvas = c, chart_config = heroChart_config\<rparr>]))"
proof -
  obtain r p' where c: "chart_initializer env (initial_page doc) = (r, p')"
    by (cases "chart_initializer env (initial_page doc)") auto
  with assms have "r = Some e" by simp
  with c have "load env doc = chart_initializer env (initial_page doc)"
    by (simp add: load_def script_def)
  with chart_initializer_throws [OF assms] assms show ?thesis
    by (simp add: initial_page_def)
qed

lemma load_cases:
  "(\<exists>e. fst (load env doc) = Some e \<and> document (snd (load env doc)) = doc \<and>
        clickListeners (snd (load env doc)) = [] \<and> observed (snd (load env doc)) = [] \<and>
        (chartCalls (snd (load env doc)) = [] \<or>
         (\<exists>c. chartCalls (snd (load env doc)) =
                [\<lparr>chart_canvas = c, chart_config = heroChart_config\<rparr>]))) \<or>
   (\<exists>c. heroChart_ctx env doc = Inr c \<and> load env doc = (None, loaded doc c))"
proof (cases "fst (chart_initializer env (initial_page doc))")
  case None
  from load_returns [OF this] show ?thesis by blast
next
  case (Some e)
  from load_throws [OF this] show ?thesis by blast
qed

section \<open>The claims about the page load\<close>

lemma loaded_hidden:
  assumes "i \<in> set (querySelectorAll doc animated_selector)"
  shows "is_hidden (document (loaded doc c) ! i) \<and> transition_armed (document (loaded doc c) ! i)"
proof -
  from assms have "i < length doc"
    by (simp add: set_querySelectorAll)
  with assms have "document (loaded doc c) ! i = hide (doc ! i)"
    by (simp add: loaded_def nth_hide_all)
  then show ?thesis
    by (simp add: hide_hidden)
qed

text \<open>
  Claim C7, as the code has it. After a page load, whatever its outcome, every target of
  the observer (the only elements an intersection event can be delivered for) is an
  element of the three categories, is Hidden (opacity 0, offset +20px) and has its
  transition armed. When the chart initializer does not throw, the load runs to its end
  and every element of the three categories is such a target. The load is one
  synchronous run: no callback is invoked inside \<open>load\<close>.
\<close>

theorem animated_elements_start_hidden:
  "(\<forall>i \<in> set (observed (snd (load env doc))).
      i < length doc \<and> matches doc animated_selector i \<and>
      is_hidden (document (snd (load env doc)) ! i) \<and>
      transition_armed (document (snd (load env doc)) ! i)) \<and>
   (fst (chart_initializer env (initial_page doc)) = None \<longrightarrow>
      fst (load env doc) = None \<and>
      (\<forall>i. i < length doc \<and> matches doc animated_selector i \<longrightarrow>
         i \<in> set (observed (snd (load env doc))) \<and>
         is_hidden (document (snd (load env doc)) ! i) \<and>
         transition_armed (document (snd (load env doc)) ! i)))"
proof (cases "fst (chart_initializer env (initial_page doc))")
  case (Some e)
  from load_throws [OF this] Some show ?thesis by simp
next
  case None
  from load_returns [OF this] obtain c where l: "load env doc = (None, loaded doc c)"
    by blast
  have obs: "observed (loaded doc c) = querySelectorAll doc animated_selector"
    by (simp add: loaded_def)
  show ?thesis
    unfolding l using loaded_hidden [of _ doc c]
    by (simp add: obs set_querySelectorAll)
qed

theorem animated_elements_start_hidden_witness:
  "fst (chart_initializer chart_js (initial_page landing_page)) = None \<and>
   fst (load chart_js landing_page) = None \<and>
   observed (snd (load chart_js landing_page)) = [4, 6, 8] \<and>
   matches landing_page animated_selector 8 \<and>
   is_hidden (document (snd (load chart_js landing_page)) ! 8) \<and>
   transition_armed (document (snd (load chart_js landing_page)) ! 8) \<and>
   is_hidden (document (snd (load chart_js landing_page)) ! 4) \<and>
   is_hidden (document (snd (load chart_js landing_page)) ! 6)"
proof -
  have ok: "fst (chart_initializer chart_js (initial_page landing_page)) = None"
    by code_simp
  have obs: "observed (snd (load chart_js landing_page)) = [4, 6, 8]"
    by code_simp
  have len: "length landing_page = 10"
    by code_simp
  have m: "matches landing_page animated_selector 8"
    by code_simp
  from animated_elements_start_hidden [of chart_js landing_page] ok obs m len
  show ?thesis by simp
qed

text \<open>
  Claim C7 as stated fails on a load whose chart initializer throws. On the landing page
  without its canvas the card (node 2) is in the first category and keeps the style it
  had; on the landing page itself, when no library has defined \<^verbatim>\<open>Chart\<close>, line 9 throws
  a ReferenceError and the card (node 4) keeps its style. Nothing is observed on either.
\<close>

theorem animated_elements_counterexample:
  "matches page_without_canvas animated_selector 2 \<and>
   fst (load chart_js page_without_canvas) = Some TypeError \<and>
   \<not> is_hidden (document (snd (load chart_js page_without_canvas)) ! 2) \<and>
   observed (snd (load chart_js page_without_canvas)) = [] \<and>
   matches landing_page animated_selector 4 \<and>
   heroChart_ctx no_chart_js landing_page = Inr 1 \<and>
   fst (load no_chart_js landing_page) = Some ReferenceError \<and>
   \<not> is_hidden (document (snd (load no_chart_js landing_page)) ! 4) \<and>
   observed (snd (load no_chart_js landing_page)) = []"
  by code_simp

text \<open>
  Claim C1, as the code has it. When no element has the id \<^verbatim>\<open>heroChart\<close>, the first
  statement throws a TypeError that nothing catches, and the script ends there: the page
  is left as it was, with no chart, no click listener and no observed or hidden
  element.
\<close>

theorem canvas_absent_aborts_script:
  "getElementById doc ''heroChart'' = None \<longrightarrow>
      load env doc = (Some TypeError, initial_page doc) \<and>
      clickListeners (snd (load env doc)) = [] \<and> observed (snd (load env doc)) = [] \<and>
      chartCalls (snd (load env doc)) = [] \<and> document (snd (load env doc)) = doc"
proof
  assume "getElementById doc ''heroChart'' = None"
  then have "load env doc = (Some TypeError, initial_page doc)"
    by (rule load_absent)
  then show "load env doc = (Some TypeError, initial_page doc) \<and>
      clickListeners (snd (load env doc)) = [] \<and> observed (snd (load env doc)) = [] \<and>
      chartCalls (snd (load env doc)) = [] \<and> document (snd (load env doc)) = doc"
    by (simp add: initial_page_def)
qed

theorem canvas_absent_aborts_script_witness:
  "getElementById page_without_canvas ''heroChart'' = None \<and>
   load chart_js page_without_canvas = (Some TypeError, initial_page page_without_canvas) \<and>
   clickListeners (snd (load chart_js page_without_canvas)) = [] \<and>
   observed (snd (load chart_js page_without_canvas)) = [] \<and>
   document (snd (load chart_js page_without_canvas)) = page_without_canvas"
proof -
  have a: "getElementById page_without_canvas ''heroChart'' = None"
    by code_simp
  from canvas_absent_aborts_script [of page_without_canvas chart_js] a
  show ?thesis by blast
qed

text \<open>
  Claim C1 as stated fails: on the landing page without its canvas, which has one
  anchor (node 1) and one card (node 2), the load ends with a TypeError, no click
  listener is registered and nothing is observed or hidden, and a click on the anchor
  scrolls nowhere.
\<close>

theorem canvas_absent_counterexample:
  "getElementById page_without_canvas ''heroChart'' = None \<and>
   querySelectorAll page_without_canvas anchor_selector = [1] \<and>
   querySelectorAll page_without_canvas animated_selector = [2] \<and>
   fst (load chart_js page_without_canvas) = Some TypeError \<and>
   clickListeners (snd (load chart_js page_without_canvas)) = [] \<and>
   observed (snd (load chart_js page_without_canvas)) = [] \<and>
   \<not> is_hidden (document (snd (load chart_js page_without_canvas)) ! 2) \<and>
   scrollCalls (deliver page_parser (snd (load chart_js page_without_canvas)) (Click 1)) = []"
  by code_simp

text \<open>
  Claim C5. Every configuration handed to the charting library has the labels Jan to
  Jul and one dataset whose samples are 65, 59, 80, 81, 56, 95, 75, in that order; a
  load that runs to its end makes exactly one such call.
\<close>

theorem chart_dataset_is_literal:
  "(\<forall>c \<in> set (chartCalls (snd (load env doc))).
      labels (chart_data (chart_config c)) =
        [''Jan'', ''Feb'', ''Mar'', ''Apr'', ''May'', ''Jun'', ''Jul''] \<and>
      map data (datasets (chart_data (chart_config c))) = [[65, 59, 80, 81, 56, 95, 75]]) \<and>
   (fst (load env doc) = None \<longrightarrow> length (chartCalls (snd (load env doc))) = 1)"
proof (cases "fst (chart_initializer env (initial_page doc))")
  case (Some e)
  from load_throws [OF this] show ?thesis
    by (auto simp: heroChart_config_def)
next
  case None
  from load_returns [OF this] obtain c where "load env doc = (None, loaded doc c)"
    by blast
  then show ?thesis by (simp add: loaded_def heroChart_config_def)
qed

theorem chart_dataset_is_literal_witness:
  "fst (load chart_js landing_page) = None \<and>
   length (chartCalls (snd (load chart_js landing_page))) = 1 \<and>
   chart_canvas (hd (chartCalls (snd (load chart_js landing_page)))) = 1 \<and>
   labels (chart_data (chart_config (hd (chartCalls (snd (load chart_js landing_page)))))) =
     [''Jan'', ''Feb'', ''Mar'', ''Apr'', ''May'', ''Jun'', ''Jul''] \<and>
   map data (datasets (chart_data (chart_config (hd (chartCalls (snd (load chart_js landing_page))))))) =
     [[65, 59, 80, 81, 56, 95, 75]]"
proof -
  have ok: "fst (load chart_js landing_page) = None"
    by code_simp
  have cv: "chart_canvas (hd (chartCalls (snd (load chart_js landing_page)))) = 1"
    by code_simp
  from chart_dataset_is_literal [of chart_js landing_page] ok
  have n: "length (chartCalls (snd (load chart_js landing_page))) = 1"
    and all: "\<forall>c \<in> set (chartCalls (snd (load chart_js landing_page))).
      labels (chart_data (chart_config c)) =
        [''Jan'', ''Feb'', ''Mar'', ''Apr'', ''May'', ''Jun'', ''Jul''] \<and>
      map data (datasets (chart_data (chart_config c))) = [[65, 59, 80, 81, 56, 95, 75]]"
    by blast+
  from n have "hd (chartCalls (snd (load chart_js landing_page))) \<in> set (chartCalls (snd (load chart_js landing_page)))"
    by (cases "chartCalls (snd (load chart_js landing_page))") simp_all
  with all ok n cv show ?thesis by blast
qed

lemma observed_in_range:
  "i \<in> set (observed (snd (load env doc))) \<Longrightarrow> i < length (document (snd (load env doc)))"
  using load_cases [of env doc]
  by (auto simp: initial_page_def loaded_def set_querySelectorAll)

text \<open>
  Claim C4. On a loaded page whose observer has exactly one target, the event of ratio
  0.5 for that element leaves it with opacity 1 and offset 0, and the event of ratio
  0.05 leaves the page as it is.
\<close>

theorem one_card_scenario:
  assumes "fst (load env doc) = None"
    and "observed (snd (load env doc)) = [i]"
  shows "opacity (style (document (deliver parse (snd (load env doc))
            (Intersection [intersection_entry observerOptions i 0.5])) ! i)) = ''1'' \<and>
         transform (style (document (deliver parse (snd (load env doc))
            (Intersection [intersection_entry observerOptions i 0.5])) ! i)) = ''translateY(0)'' \<and>
         deliver parse (snd (load env doc))
            (Intersection [intersection_entry observerOptions i 0.05]) = snd (load env doc)"
proof -
  let ?p = "snd (load env doc)"
  from assms(2) have "i \<in> set (observed ?p)" by simp
  then have len: "i < length (document ?p)"
    by (rule observed_in_range)
  have "document (deliver parse ?p (Intersection [intersection_entry observerOptions i 0.5]))
          = update_element i reveal (document ?p)"
    using assms(2) by (simp add: on_entry_def observerOptions_def)
  moreover have "is_visible (update_element i reveal (document ?p) ! i)"
    using len by (simp add: nth_update_element reveal_visible)
  moreover have "deliver parse ?p (Intersection [intersection_entry observerOptions i 0.05]) = ?p"
    using assms(2) by (simp add: on_entry_def observerOptions_def)
  ultimately show ?thesis
    by (simp add: is_visible_def)
qed

theorem one_card_scenario_witness:
  "querySelectorAll one_card_page animated_selector = [1] \<and>
   ''glass-card'' \<in> set (classList (one_card_page ! 1)) \<and>
   is_hidden (document (snd (load chart_js one_card_page)) ! 1) \<and>
   opacity (style (document (deliver page_parser (snd (load chart_js one_card_page))
            (Intersection [intersection_entry observerOptions 1 0.5])) ! 1)) = ''1'' \<and>
   transform (style (document (deliver page_parser (snd (load chart_js one_card_page))
            (Intersection [intersection_entry observerOptions 1 0.5])) ! 1)) = ''translateY(0)'' \<and>
   deliver page_parser (snd (load chart_js one_card_page))
            (Intersection [intersection_entry observerOptions 1 0.05]) = snd (load chart_js one_card_page)"
proof -
  have ok: "fst (load chart_js one_card_page) = None"
    by code_simp
  have obs: "observed (snd (load chart_js one_card_page)) = [1]"
    by code_simp
  have q: "querySelectorAll one_card_page animated_selector = [1]"
    by code_simp
  have g: "''glass-card'' \<in> set (classList (one_card_page ! 1))"
    by code_simp
  have h: "is_hidden (document (snd (load chart_js one_card_page)) ! 1)"
    by code_simp
  from one_card_scenario [OF ok obs, of page_parser] q g h
  show ?thesis by blast
qed

section \<open>The click listener\<close>

lemma click_handler_found:
  "lookup_target parse (document p) a = Inr (Some t) \<Longrightarrow>
     click_handler parse a (e, p) =
       (None, preventDefault e,
        p\<lparr>scrollCalls := scrollCalls p @
             [\<lparr>scroll_target = t, scroll_options = \<lparr>behavior = ''smooth''\<rparr>\<rparr>]\<rparr>)"
  by (simp add: click_handler_def lookup_target_def scrollIntoView_def)

lemma click_handler_not_found:
  "\<forall>t. lookup_target parse (document p) a \<noteq> Inr (Some t) \<Longrightarrow>
     click_handler parse a (e, p) = (Some (lookup_error parse (document p) a), preventDefault e, p)"
  by (auto simp: click_handler_def lookup_target_def lookup_error_def
      split: sum.splits option.splits)

lemma click_handler_event: "fst (snd (click_handler parse a (e, p))) = preventDefault e"
  by (simp add: click_handler_def Let_def split: sum.splits option.splits)

lemma preventDefault_cancelable: "cancelable e \<Longrightarrow> defaultPrevented (preventDefault e)"
  by (simp add: preventDefault_def)

lemma preventDefault_user_click:
  "cancelable e \<Longrightarrow> preventDefault e = e\<lparr>defaultPrevented := True\<rparr>"
  by (simp add: preventDefault_def)

lemma preventDefault_idem: "preventDefault (preventDefault e) = preventDefault e"
  by (auto simp: preventDefault_def)

lemma matches_id_selector:
  "i < length doc \<Longrightarrow> matches doc [[[IdSel name]]] i = (elem_id (doc ! i) = Some name)"
  by (simp add: matches_def matches_complex_def matches_compound_def)

lemma find_id_selector:
  "List.find (matches doc [[[IdSel name]]]) [0..<length doc] = getElementById doc name"
  unfolding getElementById_def
  by (rule find_cong) (simp_all add: matches_id_selector)

lemma lookup_by_id:
  "parses_as_id parse doc a \<Longrightarrow> lookup_target parse doc a = Inr (fragment_target doc a)"
  by (auto simp: parses_as_id_def fragment_target_def lookup_target_def querySelector_def
      to_string_def find_id_selector split: option.splits list.splits)

lemma dispatch_click_found:
  assumes "lookup_target parse (document p) a = Inr (Some t)"
  shows "dispatch_click parse a ls (e, p) =
     ((if count_list ls a = 0 then e else preventDefault e),
      p\<lparr>scrollCalls := scrollCalls p @
           replicate (count_list ls a)
             \<lparr>scroll_target = t, scroll_options = \<lparr>behavior = ''smooth''\<rparr>\<rparr>\<rparr>)"
  using assms
proof (induction ls arbitrary: e p)
  case Nil
  show ?case by simp
next
  case (Cons l ls)
  show ?case
  proof (cases "l = a")
    case False
    with Cons show ?thesis by simp
  next
    case True
    let ?call = "\<lparr>scroll_target = t, scroll_options = \<lparr>behavior = ''smooth''\<rparr>\<rparr>"
    let ?p1 = "p\<lparr>scrollCalls := scrollCalls p @ [?call]\<rparr>"
    have h: "click_handler parse a (e, p) = (None, preventDefault e, ?p1)"
      using Cons.prems by (rule click_handler_found)
    have "lookup_target parse (document ?p1) a = Inr (Some t)"
      using Cons.prems by simp
    from Cons.IH [OF this, of "preventDefault e"] True h show ?thesis
      by (simp add: preventDefault_idem)
  qed
qed

lemma distinct_count_list: "distinct xs \<Longrightarrow> x \<in> set xs \<Longrightarrow> count_list xs x = 1"
  by (induction xs) auto

lemma getAttribute_href_hide_all:
  "getAttribute_href (hide_all xs doc) a = getAttribute_href doc a"
  by (simp add: getAttribute_href_def nth_hide_all hide_def)

lemma getElementById_hide_all: "getElementById (hide_all xs doc) name = getElementById doc name"
  unfolding getElementById_def
  by (rule find_cong) (simp_all add: nth_hide_all hide_def)

lemma fragment_target_hide_all: "fragment_target (hide_all xs doc) a = fragment_target doc a"
  by (simp add: fragment_target_def getAttribute_href_hide_all getElementById_hide_all
      split: option.splits list.splits)

lemma parses_as_id_hide_all: "parses_as_id parse (hide_all xs doc) a = parses_as_id parse doc a"
  by (simp add: parses_as_id_def getAttribute_href_hide_all split: option.splits list.splits)

text \<open>After a load whose chart initializer did not throw, each anchor of
  \<^verbatim>\<open>a[href^="#"]\<close> carries the listener once, and its href and the ids of the document
  are what they were.\<close>

lemma listener_registered_once:
  assumes "fst (chart_initializer env (initial_page doc)) = None"
    and "a < length doc" and "matches doc anchor_selector a"
  shows "count_list (clickListeners (snd (load env doc))) a = 1 \<and>
         getAttribute_href (document (snd (load env doc))) a = getAttribute_href doc a \<and>
         fragment_target (document (snd (load env doc))) a = fragment_target doc a \<and>
         parses_as_id parse (document (snd (load env doc))) a = parses_as_id parse doc a"
proof -
  from load_returns [OF assms(1)] obtain c where l: "load env doc = (None, loaded doc c)"
    by blast
  have "a \<in> set (querySelectorAll doc anchor_selector)"
    using assms(2,3) by (simp add: set_querySelectorAll)
  then have "count_list (querySelectorAll doc anchor_selector) a = 1"
    by (intro distinct_count_list distinct_querySelectorAll)
  then show ?thesis
    by (simp add: l loaded_def getAttribute_href_hide_all fragment_target_hide_all
        parses_as_id_hide_all)
qed

text \<open>
  Claim C6, as the code has it. On a page where the anchor carries the script's listener
  once, where its href is \<^verbatim>\<open>#name\<close> with a name the platform reads as an ID selector, and
  where an element has that id, a click of the user runs the listener once: the
  default navigation is cancelled and exactly one call
  \<^verbatim>\<open>scrollIntoView({behavior: 'smooth'})\<close> is made, on the first element with that id.
  After a load whose chart initializer did not throw, every anchor of
  \<^verbatim>\<open>a[href^="#"]\<close> carries the listener once, with its href and target as in the
  document that was loaded.
\<close>

theorem resolvable_click_scrolls_once:
  "(parses_as_id parse (document p) a \<and> fragment_target (document p) a = Some t \<and>
    count_list (clickListeners p) a = 1 \<longrightarrow>
      dispatch_click parse a (clickListeners p) (user_click, p) =
        (user_click\<lparr>defaultPrevented := True\<rparr>,
         p\<lparr>scrollCalls := scrollCalls p @
              [\<lparr>scroll_target = t, scroll_options = \<lparr>behavior = ''smooth''\<rparr>\<rparr>]\<rparr>)) \<and>
   (fst (chart_initializer env (initial_page doc)) = None \<and> a < length doc \<and>
    matches doc anchor_selector a \<longrightarrow>
      count_list (clickListeners (snd (load env doc))) a = 1 \<and>
      fragment_target (document (snd (load env doc))) a = fragment_target doc a \<and>
      parses_as_id parse (document (snd (load env doc))) a = parses_as_id parse doc a)"
proof -
  have click: "parses_as_id parse (document p) a \<and> fragment_target (document p) a = Some t \<and>
    count_list (clickListeners p) a = 1 \<longrightarrow>
      dispatch_click parse a (clickListeners p) (user_click, p) =
        (user_click\<lparr>defaultPrevented := True\<rparr>,
         p\<lparr>scrollCalls := scrollCalls p @
              [\<lparr>scroll_target = t, scroll_options = \<lparr>behavior = ''smooth''\<rparr>\<rparr>]\<rparr>)"
  proof
    assume h: "parses_as_id parse (document p) a \<and> fragment_target (document p) a = Some t \<and>
      count_list (clickListeners p) a = 1"
    then have "lookup_target parse (document p) a = Inr (Some t)"
      by (simp add: lookup_by_id)
    from dispatch_click_found [OF this, of "clickListeners p" user_click] h
    show "dispatch_click parse a (clickListeners p) (user_click, p) =
          (user_click\<lparr>defaultPrevented := True\<rparr>,
           p\<lparr>scrollCalls := scrollCalls p @
                [\<lparr>scroll_target = t, scroll_options = \<lparr>behavior = ''smooth''\<rparr>\<rparr>]\<rparr>)"
      by (simp add: preventDefault_def user_click_def)
  qed
  have registered: "fst (chart_initializer env (initial_page doc)) = None \<and> a < length doc \<and>
    matches doc anchor_selector a \<longrightarrow>
      count_list (clickListeners (snd (load env doc))) a = 1 \<and>
      fragment_target (document (snd (load env doc))) a = fragment_target doc a \<and>
      parses_as_id parse (document (snd (load env doc))) a = parses_as_id parse doc a"
    using listener_registered_once [of env doc a parse] by simp
  from click registered show ?thesis by (rule conjI)
qed

theorem resolvable_click_scrolls_once_witness:
  "fst (chart_initializer chart_js (initial_page landing_page)) = None \<and>
   matches landing_page anchor_selector 2 \<and>
   href (landing_page ! 2) = Some ''#team'' \<and>
   parses_as_id page_parser landing_page 2 \<and>
   fragment_target landing_page 2 = Some 5 \<and>
   count_list (clickListeners (snd (load chart_js landing_page))) 2 = 1 \<and>
   dispatch_click page_parser 2 (clickListeners (snd (load chart_js landing_page)))
       (user_click, snd (load chart_js landing_page)) =
     (user_click\<lparr>defaultPrevented := True\<rparr>,
      (snd (load chart_js landing_page))\<lparr>scrollCalls :=
         scrollCalls (snd (load chart_js landing_page)) @
         [\<lparr>scroll_target = 5, scroll_options = \<lparr>behavior = ''smooth''\<rparr>\<rparr>]\<rparr>) \<and>
   scrollCalls (snd (load chart_js landing_page)) = []"
proof -
  let ?p = "snd (load chart_js landing_page)"
  have ok: "fst (chart_initializer chart_js (initial_page landing_page)) = None"
    by code_simp
  have len: "2 < length landing_page"
    by code_simp
  have m: "matches landing_page anchor_selector 2"
    by code_simp
  have hr: "href (landing_page ! 2) = Some ''#team''"
    by code_simp
  have pi: "parses_as_id page_parser landing_page 2"
    by code_simp
  have ft: "fragment_target landing_page 2 = Some 5"
    by code_simp
  have sc: "scrollCalls ?p = []"
    by code_simp
  note t = resolvable_click_scrolls_once
    [where parse = page_parser and p = ?p and a = 2 and t = 5 and env = chart_js
       and doc = landing_page]
  from t ok len m have reg: "count_list (clickListeners ?p) 2 = 1 \<and>
      fragment_target (document ?p) 2 = fragment_target landing_page 2 \<and>
      parses_as_id page_parser (document ?p) 2 = parses_as_id page_parser landing_page 2"
    by blast
  with pi ft have "parses_as_id page_parser (document ?p) 2 \<and>
      fragment_target (document ?p) 2 = Some 5 \<and> count_list (clickListeners ?p) 2 = 1"
    by simp
  with t have "dispatch_click page_parser 2 (clickListeners ?p) (user_click, ?p) =
     (user_click\<lparr>defaultPrevented := True\<rparr>,
      ?p\<lparr>scrollCalls := scrollCalls ?p @
         [\<lparr>scroll_target = 5, scroll_options = \<lparr>behavior = ''smooth''\<rparr>\<rparr>]\<rparr>)"
    by blast
  with ok m hr pi ft reg sc show ?thesis by blast
qed

text \<open>
  Claim C6 as stated fails in two ways. On \<open>digit_id_page\<close> the load runs to its end
  and the link \<^verbatim>\<open>#1st\<close> carries the listener; an element has the id \<^verbatim>\<open>1st\<close>, so the
  fragment resolves; but \<^verbatim>\<open>#1st\<close> is no selector, \<^verbatim>\<open>querySelector\<close> throws a SyntaxError
  and nothing scrolls. On the landing page without its canvas the link \<^verbatim>\<open>#team\<close>
  resolves to the section (node 3), but the script ended before line 44, no listener
  is registered and a click scrolls nowhere.
\<close>

theorem resolvable_click_counterexample:
  "fst (load chart_js digit_id_page) = None \<and>
   clickListeners (snd (load chart_js digit_id_page)) = [1] \<and>
   fragment_target digit_id_page 1 = Some 2 \<and>
   page_parser ''#1st'' = None \<and>
   scrollCalls (deliver page_parser (snd (load chart_js digit_id_page)) (Click 1)) = [] \<and>
   console (deliver page_parser (snd (load chart_js digit_id_page)) (Click 1)) = [SyntaxError] \<and>
   fragment_target page_without_canvas 1 = Some 3 \<and>
   clickListeners (snd (load chart_js page_without_canvas)) = [] \<and>
   scrollCalls (deliver page_parser (snd (load chart_js page_without_canvas)) (Click 1)) = []"
  by code_simp

text \<open>
  Claim C9. \<^verbatim>\<open>preventDefault\<close> is the first statement of the listener: whatever the
  lookup gives afterwards, the event the listener leaves behind is the one
  \<^verbatim>\<open>preventDefault\<close> made, so a cancelable click has its default navigation cancelled
  also when the listener throws.
\<close>

theorem default_prevented_before_lookup:
  "fst (snd (click_handler parse a (e, p))) = preventDefault e \<and>
   (cancelable e \<longrightarrow> defaultPrevented (fst (snd (click_handler parse a (e, p)))))"
  by (simp add: click_handler_event preventDefault_cancelable)

theorem default_prevented_before_lookup_witness:
  "lookup_target page_parser (document (snd (load chart_js landing_page))) 3 = Inr None \<and>
   fst (click_handler page_parser 3
          (\<lparr>cancelable = True, defaultPrevented = False\<rparr>, snd (load chart_js landing_page)))
     = Some TypeError \<and>
   defaultPrevented (fst (snd (click_handler page_parser 3
          (\<lparr>cancelable = True, defaultPrevented = False\<rparr>, snd (load chart_js landing_page)))))"
proof -
  have l: "lookup_target page_parser (document (snd (load chart_js landing_page))) 3 = Inr None"
    by code_simp
  have t: "fst (click_handler page_parser 3
          (\<lparr>cancelable = True, defaultPrevented = False\<rparr>, snd (load chart_js landing_page)))
     = Some TypeError"
    by code_simp
  have c: "cancelable \<lparr>cancelable = True, defaultPrevented = False\<rparr>"
    by simp
  from default_prevented_before_lookup
    [of page_parser 3 "\<lparr>cancelable = True, defaultPrevented = False\<rparr>"
        "snd (load chart_js landing_page)"] l t c
  show ?thesis by blast
qed

section \<open>A click whose target is missing\<close>

lemma same_but_console_iff:
  "same_but_console p q \<longleftrightarrow>
     document p = document q \<and> clickListeners p = clickListeners q \<and>
     observed p = observed q \<and> chartCalls p = chartCalls q \<and> scrollCalls p = scrollCalls q"
  by (cases p, cases q) (auto simp: same_but_console_def)

lemma same_but_console_update [simp]: "same_but_console (p\<lparr>console := c\<rparr>) p"
  by (simp add: same_but_console_def)

lemma click_handler_same:
  assumes "same_but_console p q"
  shows "fst (click_handler parse a (e, p)) = fst (click_handler parse a (e, q)) \<and>
         fst (snd (click_handler parse a (e, p))) = fst (snd (click_handler parse a (e, q))) \<and>
         same_but_console (snd (snd (click_handler parse a (e, p))))
                          (snd (snd (click_handler parse a (e, q))))"
proof -
  from assms have d: "document p = document q" and s: "scrollCalls p = scrollCalls q"
    by (simp_all add: same_but_console_iff)
  show ?thesis
    using assms
    by (auto simp: click_handler_def Let_def d s scrollIntoView_def same_but_console_iff
        split: sum.splits option.splits)
qed

lemma dispatch_click_same:
  "same_but_console p q \<Longrightarrow>
     fst (dispatch_click parse a ls (e, p)) = fst (dispatch_click parse a ls (e, q)) \<and>
     same_but_console (snd (dispatch_click parse a ls (e, p)))
                      (snd (dispatch_click parse a ls (e, q)))"
proof (induction ls arbitrary: e p q)
  case Nil
  then show ?case by simp
next
  case (Cons l ls)
  show ?case
  proof (cases "l = a")
    case False
    with Cons show ?thesis by simp
  next
    case True
    obtain r e1 p1 where hp: "click_handler parse a (e, p) = (r, e1, p1)"
      by (cases "click_handler parse a (e, p)") auto
    obtain r' e2 q1 where hq: "click_handler parse a (e, q) = (r', e2, q1)"
      by (cases "click_handler parse a (e, q)") auto
    from click_handler_same [OF Cons.prems, of parse a e] hp hq
    have eq: "r' = r" "e2 = e1" and sbc: "same_but_console p1 q1"
      by simp_all
    show ?thesis
    proof (cases r)
      case None
      with True hp hq eq Cons.IH [OF sbc, of e1] show ?thesis by simp
    next
      case (Some err)
      from sbc have "same_but_console (p1\<lparr>console := console p1 @ [err]\<rparr>)
                                      (q1\<lparr>console := console q1 @ [err]\<rparr>)"
        by (simp add: same_but_console_iff)
      from Cons.IH [OF this, of e1] True hp hq eq Some show ?thesis by simp
    qed
  qed
qed

lemma deliver_same:
  assumes "same_but_console p q"
  shows "same_but_console (deliver parse p ev) (deliver parse q ev)"
proof (cases ev)
  case (Click a)
  from assms have "clickListeners p = clickListeners q"
    by (simp add: same_but_console_iff)
  with dispatch_click_same [OF assms] Click show ?thesis by simp
next
  case (Intersection es)
  with assms show ?thesis by (simp add: same_but_console_iff)
qed

lemma dispatch_click_failing:
  assumes "\<forall>t. lookup_target parse (document p) a \<noteq> Inr (Some t)"
  shows "snd (dispatch_click parse a ls (e, p)) =
           p\<lparr>console := console p @
                replicate (count_list ls a) (lookup_error parse (document p) a)\<rparr>"
  using assms
proof (induction ls arbitrary: e p)
  case Nil
  show ?case by simp
next
  case (Cons l ls)
  show ?case
  proof (cases "l = a")
    case False
    with Cons show ?thesis by simp
  next
    case True
    let ?err = "lookup_error parse (document p) a"
    let ?p1 = "p\<lparr>console := console p @ [?err]\<rparr>"
    have h: "click_handler parse a (e, p) = (Some ?err, preventDefault e, p)"
      using Cons.prems by (rule click_handler_not_found)
    have "\<forall>t. lookup_target parse (document ?p1) a \<noteq> Inr (Some t)"
      using Cons.prems by simp
    from Cons.IH [OF this, of "preventDefault e"] True h show ?thesis
      by (simp add: replicate_append_same)
  qed
qed

lemma failing_click:
  assumes "\<forall>t. lookup_target parse (document p) a \<noteq> Inr (Some t)"
  shows "click_handler parse a (e, p) =
           (Some (lookup_error parse (document p) a), preventDefault e, p) \<and>
         deliver parse p (Click a) =
           p\<lparr>console := console p @
                replicate (count_list (clickListeners p) a)
                  (lookup_error parse (document p) a)\<rparr> \<and>
         same_but_console (deliver parse (deliver parse p (Click a)) ev) (deliver parse p ev)"
proof -
  have d: "deliver parse p (Click a) =
           p\<lparr>console := console p @
                replicate (count_list (clickListeners p) a)
                  (lookup_error parse (document p) a)\<rparr>"
    using dispatch_click_failing [OF assms] by simp
  have "same_but_console (deliver parse p (Click a)) p"
    unfolding d by simp
  then have "same_but_console (deliver parse (deliver parse p (Click a)) ev) (deliver parse p ev)"
    by (rule deliver_same)
  with d click_handler_not_found [OF assms] show ?thesis by simp
qed

lemma lookup_rejected:
  "a < length doc \<Longrightarrow> href (doc ! a) = Some h \<Longrightarrow> parse h = None \<Longrightarrow>
     lookup_target parse doc a = Inl SyntaxError"
  by (simp add: lookup_target_def querySelector_def getAttribute_href_def to_string_def)

text \<open>
  Claim C3, as the code has it. On a page where the anchor carries the script's listener
  once: when the platform rejects its href as a selector, a click of the user raises a
  SyntaxError; when its href is \<^verbatim>\<open>#name\<close> with a name the platform reads as an ID
  selector and no element has that id, a click raises a TypeError. In both cases the
  event is cancelled first and the page is untouched; the platform reports the one
  error and nothing else changes, so every click listener and every observer target is
  still registered and every later event has the effect it would have had without that
  click. After a load whose chart initializer did not throw, every anchor of
  \<^verbatim>\<open>a[href^="#"]\<close> carries the listener once, with its href and target as in the
  document that was loaded.
\<close>

theorem unresolvable_click_raises:
  "(a < length (document p) \<and> href (document p ! a) = Some h \<and> parse h = None \<and>
    count_list (clickListeners p) a = 1 \<longrightarrow>
      click_handler parse a (e, p) = (Some SyntaxError, preventDefault e, p) \<and>
      deliver parse p (Click a) = p\<lparr>console := console p @ [SyntaxError]\<rparr> \<and>
      same_but_console (deliver parse (deliver parse p (Click a)) ev) (deliver parse p ev)) \<and>
   (parses_as_id parse (document p) a \<and> fragment_target (document p) a = None \<and>
    count_list (clickListeners p) a = 1 \<longrightarrow>
      click_handler parse a (e, p) = (Some TypeError, preventDefault e, p) \<and>
      deliver parse p (Click a) = p\<lparr>console := console p @ [TypeError]\<rparr> \<and>
      same_but_console (deliver parse (deliver parse p (Click a)) ev) (deliver parse p ev)) \<and>
   (fst (chart_initializer env (initial_page doc)) = None \<and> a < length doc \<and>
    matches doc anchor_selector a \<longrightarrow>
      count_list (clickListeners (snd (load env doc))) a = 1 \<and>
      getAttribute_href (document (snd (load env doc))) a = getAttribute_href doc a \<and>
      fragment_target (document (snd (load env doc))) a = fragment_target doc a \<and>
      parses_as_id parse (document (snd (load env doc))) a = parses_as_id parse doc a)"
proof -
  have rejected: "a < length (document p) \<and> href (document p ! a) = Some h \<and> parse h = None \<and>
    count_list (clickListeners p) a = 1 \<longrightarrow>
      click_handler parse a (e, p) = (Some SyntaxError, preventDefault e, p) \<and>
      deliver parse p (Click a) = p\<lparr>console := console p @ [SyntaxError]\<rparr> \<and>
      same_but_console (deliver parse (deliver parse p (Click a)) ev) (deliver parse p ev)"
  proof
    assume h: "a < length (document p) \<and> href (document p ! a) = Some h \<and> parse h = None \<and>
      count_list (clickListeners p) a = 1"
    then have l: "lookup_target parse (document p) a = Inl SyntaxError"
      by (simp add: lookup_rejected)
    then have none: "\<forall>t. lookup_target parse (document p) a \<noteq> Inr (Some t)"
      by simp
    have err: "lookup_error parse (document p) a = SyntaxError"
      by (simp add: lookup_error_def l)
    from h have one: "replicate (count_list (clickListeners p) a) SyntaxError = [SyntaxError]"
      by simp
    from failing_click [OF none, of e ev]
    show "click_handler parse a (e, p) = (Some SyntaxError, preventDefault e, p) \<and>
      deliver parse p (Click a) = p\<lparr>console := console p @ [SyntaxError]\<rparr> \<and>
      same_but_console (deliver parse (deliver parse p (Click a)) ev) (deliver parse p ev)"
      unfolding err one .
  qed
  have missing: "parses_as_id parse (document p) a \<and> fragment_target (document p) a = None \<and>
    count_list (clickListeners p) a = 1 \<longrightarrow>
      click_handler parse a (e, p) = (Some TypeError, preventDefault e, p) \<and>
      deliver parse p (Click a) = p\<lparr>console := console p @ [TypeError]\<rparr> \<and>
      same_but_console (deliver parse (deliver parse p (Click a)) ev) (deliver parse p ev)"
  proof
    assume h: "parses_as_id parse (document p) a \<and> fragment_target (document p) a = None \<and>
      count_list (clickListeners p) a = 1"
    then have l: "lookup_target parse (document p) a = Inr None"
      by (simp add: lookup_by_id)
    then have none: "\<forall>t. lookup_target parse (document p) a \<noteq> Inr (Some t)"
      by simp
    have err: "lookup_error parse (document p) a = TypeError"
      by (simp add: lookup_error_def l)
    from h have one: "replicate (count_list (clickListeners p) a) TypeError = [TypeError]"
      by simp
    from failing_click [OF none, of e ev]
    show "click_handler parse a (e, p) = (Some TypeError, preventDefault e, p) \<and>
      deliver parse p (Click a) = p\<lparr>console := console p @ [TypeError]\<rparr> \<and>
      same_but_console (deliver parse (deliver parse p (Click a)) ev) (deliver parse p ev)"
      unfolding err one .
  qed
  have registered: "fst (chart_initializer env (initial_page doc)) = None \<and> a < length doc \<and>
    matches doc anchor_selector a \<longrightarrow>
      count_list (clickListeners (snd (load env doc))) a = 1 \<and>
      getAttribute_href (document (snd (load env doc))) a = getAttribute_href doc a \<and>
      fragment_target (document (snd (load env doc))) a = fragment_target doc a \<and>
      parses_as_id parse (document (snd (load env doc))) a = parses_as_id parse doc a"
    using listener_registered_once [of env doc a parse] by simp
  from rejected missing registered show ?thesis by blast
qed

theorem unresolvable_click_raises_witness:
  "fst (chart_initializer chart_js (initial_page landing_page)) = None \<and>
   matches landing_page anchor_selector 3 \<and>
   parses_as_id page_parser landing_page 3 \<and>
   fragment_target landing_page 3 = None \<and>
   deliver page_parser (snd (load chart_js landing_page)) (Click 3) =
     (snd (load chart_js landing_page))\<lparr>console :=
        console (snd (load chart_js landing_page)) @ [TypeError]\<rparr> \<and>
   same_but_console
     (deliver page_parser (deliver page_parser (snd (load chart_js landing_page)) (Click 3))
        (Click 2))
     (deliver page_parser (snd (load chart_js landing_page)) (Click 2)) \<and>
   scrollCalls (deliver page_parser (snd (load chart_js landing_page)) (Click 2)) =
     [\<lparr>scroll_target = 5, scroll_options = \<lparr>behavior = ''smooth''\<rparr>\<rparr>] \<and>
   href (document (snd (load chart_js landing_page)) ! 9) = Some ''#'' \<and>
   page_parser ''#'' = None \<and>
   deliver page_parser (snd (load chart_js landing_page)) (Click 9) =
     (snd (load chart_js landing_page))\<lparr>console :=
        console (snd (load chart_js landing_page)) @ [SyntaxError]\<rparr> \<and>
   console (snd (load chart_js landing_page)) = []"
proof -
  let ?p = "snd (load chart_js landing_page)"
  have ok: "fst (chart_initializer chart_js (initial_page landing_page)) = None"
    by code_simp
  have len3: "3 < length landing_page" and len9: "9 < length (document ?p)"
    by code_simp+
  have m3: "matches landing_page anchor_selector 3"
    by code_simp
  have pi: "parses_as_id page_parser landing_page 3"
    by code_simp
  have ft: "fragment_target landing_page 3 = None"
    by code_simp
  have h9: "href (document ?p ! 9) = Some ''#''"
    by code_simp
  have p9: "page_parser ''#'' = None"
    by code_simp
  have c9: "count_list (clickListeners ?p) 9 = 1"
    by code_simp
  have later: "scrollCalls (deliver page_parser ?p (Click 2)) =
     [\<lparr>scroll_target = 5, scroll_options = \<lparr>behavior = ''smooth''\<rparr>\<rparr>]"
    by code_simp
  have con: "console ?p = []"
    by code_simp
  note t3 = unresolvable_click_raises
    [where a = 3 and p = ?p and h = "''#''" and parse = page_parser and e = user_click
       and ev = "Click 2" and env = chart_js and doc = landing_page]
  from t3 ok len3 m3 have reg: "count_list (clickListeners ?p) 3 = 1 \<and>
      fragment_target (document ?p) 3 = fragment_target landing_page 3 \<and>
      parses_as_id page_parser (document ?p) 3 = parses_as_id page_parser landing_page 3"
    by blast
  with pi ft have "parses_as_id page_parser (document ?p) 3 \<and>
      fragment_target (document ?p) 3 = None \<and> count_list (clickListeners ?p) 3 = 1"
    by simp
  with t3 have r3: "deliver page_parser ?p (Click 3) = ?p\<lparr>console := console ?p @ [TypeError]\<rparr> \<and>
      same_but_console (deliver page_parser (deliver page_parser ?p (Click 3)) (Click 2))
        (deliver page_parser ?p (Click 2))"
    by blast
  note t9 = unresolvable_click_raises
    [where a = 9 and p = ?p and h = "''#''" and parse = page_parser and e = user_click
       and ev = "Click 2" and env = chart_js and doc = landing_page]
  from t9 len9 h9 p9 c9
  have r9: "deliver page_parser ?p (Click 9) = ?p\<lparr>console := console ?p @ [SyntaxError]\<rparr>"
    by blast
  from ok m3 pi ft r3 later h9 p9 r9 con show ?thesis by blast
qed

text \<open>
  Claim C3 as stated fails in two ways. On \<open>compound_href_page\<close> the load runs to its
  end and the link \<^verbatim>\<open>#team.hero\<close> carries the listener; no element has the id
  \<^verbatim>\<open>team.hero\<close>, so the fragment resolves to nothing; but \<^verbatim>\<open>querySelector\<close> reads the
  href as the element with id \<^verbatim>\<open>team\<close> and class \<^verbatim>\<open>hero\<close>, finds the section (node 2),
  and the click scrolls to it and raises nothing. On \<open>dead_link_without_canvas\<close> the
  link \<^verbatim>\<open>#pricing\<close> resolves to nothing, but the script ended before line 44, no
  listener is registered and a click raises nothing.
\<close>

theorem unresolvable_click_counterexample:
  "fst (load chart_js compound_href_page) = None \<and>
   clickListeners (snd (load chart_js compound_href_page)) = [1] \<and>
   fragment_target compound_href_page 1 = None \<and>
   page_parser ''#team.hero'' = Some [[[IdSel ''team'', ClassSel ''hero'']]] \<and>
   console (deliver page_parser (snd (load chart_js compound_href_page)) (Click 1)) = [] \<and>
   scrollCalls (deliver page_parser (snd (load chart_js compound_href_page)) (Click 1)) =
     [\<lparr>scroll_target = 2, scroll_options = \<lparr>behavior = ''smooth''\<rparr>\<rparr>] \<and>
   fragment_target dead_link_without_canvas 1 = None \<and>
   fst (load chart_js dead_link_without_canvas) = Some TypeError \<and>
   clickListeners (snd (load chart_js dead_link_without_canvas)) = [] \<and>
   console (deliver page_parser (snd (load chart_js dead_link_without_canvas)) (Click 1)) = []"
  by code_simp

end
